theory Spec2Isabelle
  imports Complex_Main "HOL-Library.Word" "HOL-Library.Char_ord" "HOL-Library.List_Lexorder"
begin

unbundle bit_operations_syntax

section \<open>Smart Traffic IoT System: the secure ledger, embedded from backend.py and app.py\<close>

text \<open>
  The development follows the Python sources. Classes are records, raised exceptions are
  the left summand of a sum type, mutation is explicit state passing. A Python \<open>str\<close> is a
  HOL \<open>string\<close> (code points below 256), \<open>bytes\<close> is a list of 8-bit words.

  Third-party library primitives are not part of the repository and are taken as
  parameters, bundled in the record \<open>externals\<close>: SHA-256 (\<open>hashlib\<close>), AES-256-GCM
  (\<open>cryptography\<close>'s \<open>AESGCM\<close>) and the JSON/UTF-8 coding of the encrypted payload.
  Values drawn from the environment (\<open>os.urandom\<close>, \<open>datetime.utcnow\<close>, \<open>os.getenv\<close>) are
  explicit arguments.
\<close>

subsection \<open>Exceptions\<close>

datatype error =
    ValueError string
  | InvalidTag
  | IndexError
  | AttributeError string
  | UnicodeDecodeError
  | JSONDecodeError

subsection \<open>Bytes and hexadecimal strings: \<open>bytes.hex\<close> and \<open>bytes.fromhex\<close>\<close>

type_synonym byte = "8 word"
type_synonym bytes = "byte list"

definition hexdigit :: "nat \<Rightarrow> char" where
  "hexdigit n = ''0123456789abcdef'' ! n"

text \<open>\<open>b.hex()\<close>: two lowercase digits per byte.\<close>

definition hex :: "bytes \<Rightarrow> string" where
  "hex bs = concat (map (\<lambda>b. [hexdigit (unat b div 16), hexdigit (unat b mod 16)]) bs)"

definition hexval :: "char \<Rightarrow> nat option" where
  "hexval c =
     (let n = (of_char c :: nat) in
      if 48 \<le> n \<and> n \<le> 57 then Some (n - 48)
      else if 97 \<le> n \<and> n \<le> 102 then Some (n - 87)
      else if 65 \<le> n \<and> n \<le> 70 then Some (n - 55)
      else None)"

text \<open>ASCII white space as \<open>Py_ISSPACE\<close> has it: space, tab, LF, VT, FF, CR.\<close>

definition is_space :: "char \<Rightarrow> bool" where
  "is_space c = ((of_char c :: nat) = 32 \<or> (9 \<le> (of_char c :: nat) \<and> (of_char c :: nat) \<le> 13))"

text \<open>
  \<open>bytes.fromhex(s)\<close>: white space is skipped before a pair of digits, never inside one;
  any other character and an odd digit raise \<open>ValueError\<close> (here \<open>None\<close>).
\<close>

fun fromhex :: "string \<Rightarrow> bytes option" where
  "fromhex [] = Some []"
| "fromhex [c] = (if is_space c then Some [] else None)"
| "fromhex (c # d # cs) =
     (if is_space c then fromhex (d # cs)
      else case (hexval c, hexval d) of
        (Some a, Some b) \<Rightarrow> map_option ((#) (of_nat (16 * a + b))) (fromhex cs)
      | _ \<Rightarrow> None)"

definition fromhex_error :: error where
  "fromhex_error = ValueError ''non-hexadecimal number found in fromhex() arg''"

subsection \<open>JSON values and \<open>json.dumps(..., sort_keys=True)\<close>\<close>

text \<open>
  The values a block's \<open>__dict__\<close> holds: integers, strings, \<open>None\<close>, lists and
  string-keyed dictionaries (as association lists in insertion order).
\<close>

datatype json =
    JNull
  | JInt int
  | JStr string
  | JArr "json list"
  | JObj "(string \<times> json) list"

fun str_nat :: "nat \<Rightarrow> string" where
  "str_nat n = (if n < 10 then [hexdigit n] else str_nat (n div 10) @ [hexdigit (n mod 10)])"

definition str_int :: "int \<Rightarrow> string" where
  "str_int i = (if i < 0 then CHR ''-'' # str_nat (nat (- i)) else str_nat (nat i))"

text \<open>
  String escaping with \<open>ensure_ascii=True\<close>: the quote and the backslash get a backslash,
  the five short control escapes are used, and every other character outside
  space..tilde is written as a four-digit lowercase \<open>\u\<close> escape.
\<close>

definition esc_char :: "char \<Rightarrow> string" where
  "esc_char c =
     (let n = (of_char c :: nat) in
      if n = 34 then [CHR 0x5C, CHR 0x22]
      else if n = 92 then [CHR 0x5C, CHR 0x5C]
      else if n = 10 then [CHR 0x5C, CHR ''n'']
      else if n = 13 then [CHR 0x5C, CHR ''r'']
      else if n = 9 then [CHR 0x5C, CHR ''t'']
      else if n = 8 then [CHR 0x5C, CHR ''b'']
      else if n = 12 then [CHR 0x5C, CHR ''f'']
      else if 32 \<le> n \<and> n \<le> 126 then [c]
      else [CHR 0x5C, CHR ''u'', CHR ''0'', CHR ''0'', hexdigit (n div 16), hexdigit (n mod 16)])"

definition quote :: "string \<Rightarrow> string" where
  "quote s = CHR 0x22 # concat (map esc_char s) @ [CHR 0x22]"

fun join :: "string \<Rightarrow> string list \<Rightarrow> string" where
  "join sep [] = []"
| "join sep [x] = x"
| "join sep (x # y # ys) = x @ sep @ join sep (y # ys)"

definition item :: "string \<times> string \<Rightarrow> string" where
  "item kv = quote (fst kv) @ '': '' @ snd kv"

primrec dumps :: "json \<Rightarrow> string" where
  "dumps JNull = ''null''"
| "dumps (JInt i) = str_int i"
| "dumps (JStr s) = quote s"
| "dumps (JArr xs) = ''['' @ join '', '' (map dumps xs) @ '']''"
| "dumps (JObj kvs) =
     ''{'' @ join '', '' (map item (sort_key fst (map (map_prod id dumps) kvs))) @ ''}''"

subsection \<open>Library primitives taken as parameters\<close>

text \<open>
  \<open>sha256_hexdigest s\<close> stands for \<open>hashlib.sha256(s.encode()).hexdigest()\<close>;
  \<open>aesgcm_encrypt key nonce pt\<close> and \<open>aesgcm_decrypt key nonce ct\<close> for the two methods of
  \<open>AESGCM(key)\<close> with no associated data, the second raising \<open>InvalidTag\<close> when the tag does
  not verify; \<open>json_dumps_utf8 d\<close> for \<open>json.dumps(d).encode("utf-8")\<close> and
  \<open>json_loads_utf8 b\<close> for \<open>json.loads(b.decode("utf-8"))\<close> on the payload type \<open>'p\<close>.
\<close>

record 'p externals =
  sha256_hexdigest :: "string \<Rightarrow> string"
  aesgcm_encrypt :: "bytes \<Rightarrow> bytes \<Rightarrow> bytes \<Rightarrow> bytes"
  aesgcm_decrypt :: "bytes \<Rightarrow> bytes \<Rightarrow> bytes \<Rightarrow> error + bytes"
  json_dumps_utf8 :: "'p \<Rightarrow> bytes"
  json_loads_utf8 :: "bytes \<Rightarrow> error + 'p"

subsection \<open>Transactions\<close>

text \<open>
  The driver's response is one of three strings in the source; the session holds \<open>None\<close>
  until one is set.
\<close>

datatype response = AUTO_SAFE | CONFIRMED | REJECTED

fun response_str :: "response \<Rightarrow> string" where
  "response_str AUTO_SAFE = ''AUTO_SAFE''"
| "response_str CONFIRMED = ''CONFIRMED''"
| "response_str REJECTED = ''REJECTED''"

text \<open>The dictionary \<open>tx\<close> that app.py builds (lines 195 to 201), with its five keys.\<close>

record tx =
  tx_nonce :: string
  tx_ciphertext :: string
  tx_driver_response :: response
  tx_vehicle :: "string option"
  tx_exit_point :: "string option"

definition opt_json :: "string option \<Rightarrow> json" where
  "opt_json v = (case v of None \<Rightarrow> JNull | Some s \<Rightarrow> JStr s)"

definition tx_json :: "tx \<Rightarrow> json" where
  "tx_json t = JObj
     [(''nonce'', JStr (tx_nonce t)),
      (''ciphertext'', JStr (tx_ciphertext t)),
      (''driver_response'', JStr (response_str (tx_driver_response t))),
      (''vehicle'', opt_json (tx_vehicle t)),
      (''exit_point'', opt_json (tx_exit_point t))]"

subsection \<open>class Block\<close>

text \<open>
  \<open>data\<close> is either the genesis dictionary or the list of transactions copied from the
  pending pool.
\<close>

datatype block_data = Dict_data "(string \<times> string) list" | List_data "tx list"

fun data_json :: "block_data \<Rightarrow> json" where
  "data_json (Dict_data kvs) = JObj (map (map_prod id JStr) kvs)"
| "data_json (List_data ts) = JArr (map tx_json ts)"

fun data_txs :: "block_data \<Rightarrow> tx list" where
  "data_txs (Dict_data kvs) = []"
| "data_txs (List_data ts) = ts"

text \<open>
  The attribute \<open>hash\<close> is \<open>None\<close> for as long as \<open>__init__\<close> has not assigned it: it is
  then absent from \<open>self.__dict__\<close>.
\<close>

record Block =
  index :: int
  timestamp :: string
  data :: block_data
  prev_hash :: string
  hash :: "string option"

text \<open>\<open>self.__dict__\<close>, in the order the attributes were assigned.\<close>

definition dict_of :: "Block \<Rightarrow> (string \<times> json) list" where
  "dict_of self =
     [(''index'', JInt (index self)),
      (''timestamp'', JStr (timestamp self)),
      (''data'', data_json (data self)),
      (''prev_hash'', JStr (prev_hash self))]
     @ (case hash self of None \<Rightarrow> [] | Some h \<Rightarrow> [(''hash'', JStr h)])"

definition compute_hash :: "'p externals \<Rightarrow> Block \<Rightarrow> string" where
  "compute_hash L self = sha256_hexdigest L (dumps (JObj (dict_of self)))"

definition Block_init ::
  "'p externals \<Rightarrow> int \<Rightarrow> string \<Rightarrow> block_data \<Rightarrow> string \<Rightarrow> Block" where
  "Block_init L i t d p =
     (let self = \<lparr>index = i, timestamp = t, data = d, prev_hash = p, hash = None\<rparr>
      in self\<lparr>hash := Some (compute_hash L self)\<rparr>)"

subsection \<open>class Blockchain\<close>

record Blockchain =
  chain :: "Block list"
  current_tx :: "tx list"

definition create_genesis :: "'p externals \<Rightarrow> string \<Rightarrow> Blockchain \<Rightarrow> Blockchain" where
  "create_genesis L now self =
     (let genesis = Block_init L 0 now (Dict_data [(''msg'', ''Genesis Block'')]) ''0''
      in self\<lparr>chain := chain self @ [genesis]\<rparr>)"

definition Blockchain_init :: "'p externals \<Rightarrow> string \<Rightarrow> Blockchain" where
  "Blockchain_init L now = create_genesis L now \<lparr>chain = [], current_tx = []\<rparr>"

definition add_tx :: "tx \<Rightarrow> Blockchain \<Rightarrow> Blockchain" where
  "add_tx t self = self\<lparr>current_tx := current_tx self @ [t]\<rparr>"

text \<open>
  \<open>mine\<close> returns the new block and the updated ledger. \<open>self.chain[-1]\<close> raises
  \<open>IndexError\<close> on an empty chain and \<open>prev.hash\<close> raises \<open>AttributeError\<close> on a block
  without the attribute; neither happens on a ledger built by \<open>Blockchain()\<close>.
\<close>

definition mine ::
  "'p externals \<Rightarrow> string \<Rightarrow> Blockchain \<Rightarrow> error + (Block \<times> Blockchain)" where
  "mine L now self =
     (if chain self = [] then Inl IndexError
      else let prev = last (chain self) in
        case hash prev of
          None \<Rightarrow> Inl (AttributeError ''hash'')
        | Some h \<Rightarrow>
            let new_block = Block_init L (index prev + 1) now (List_data (current_tx self)) h
            in Inr (new_block, self\<lparr>chain := chain self @ [new_block], current_tx := []\<rparr>))"

subsection \<open>class AESCipher\<close>

record AESCipher =
  key :: bytes

definition fallback_key_hex :: string where
  "fallback_key_hex = ''00112233445566778899AABBCCDDEEFF00112233445566778899AABBCCDDEEFF''"

text \<open>
  \<open>AESCipher()\<close>; the argument is the value of \<open>os.getenv("POLICE_KEY_HEX")\<close>. An unset and
  an empty variable are both false in \<open>if police_key_hex\<close>.
\<close>

definition AESCipher_init :: "string option \<Rightarrow> error + AESCipher" where
  "AESCipher_init police_key_hex =
     (let key_hex =
        (case police_key_hex of
           None \<Rightarrow> fallback_key_hex
         | Some s \<Rightarrow> if s \<noteq> [] then s else fallback_key_hex)
      in case fromhex key_hex of
           None \<Rightarrow> Inl fromhex_error
         | Some k \<Rightarrow>
             if length k \<noteq> 32 then Inl (ValueError ''POLICE_KEY must be 32 bytes (256-bit)'')
             else Inr \<lparr>key = k\<rparr>)"

text \<open>\<open>encrypt\<close>; \<open>nonce\<close> is the value \<open>os.urandom(12)\<close> returned.\<close>

definition encrypt :: "'p externals \<Rightarrow> AESCipher \<Rightarrow> bytes \<Rightarrow> 'p \<Rightarrow> string \<times> string" where
  "encrypt L self nonce d =
     (let plaintext = json_dumps_utf8 L d;
          ct = aesgcm_encrypt L (key self) nonce plaintext
      in (hex nonce, hex ct))"


subsection \<open>Events and the decision engine\<close>

text \<open>
  The event dictionary of \<open>build_event_from_row\<close>. Python floats are modelled as reals:
  representation error, NaN and the tie rule of \<open>round\<close> are outside the model.
\<close>

record event =
  ev_vehicle :: "string option"
  ev_phone :: "string option"
  ev_email :: "string option"
  ev_entry_point :: "string option"
  ev_exit_point :: "string option"
  ev_entry_time :: string
  ev_exit_time :: string
  ev_speed :: real
  ev_speed_limit :: real
  ev_congestion :: real
  ev_travel_time_min :: "real option"

definition round2 :: "real \<Rightarrow> real" where
  "round2 x = of_int (round (x * 100)) / 100"

definition toll :: "event \<Rightarrow> real" where
  "toll e = (let congestion = ev_congestion e; base = 1; dynamic = congestion * 2
             in round2 (base + dynamic))"

definition route :: "event \<Rightarrow> string" where
  "route e =
     (let congestion = ev_congestion e in
      if congestion < 4 / 10 then ''FASTEST''
      else if congestion < 8 / 10 then ''ALTERNATE_1''
      else ''ALTERNATE_2'')"

record decision =
  d_toll :: real
  d_route :: string
  d_overspeed :: bool
  d_decision_correct :: bool
  d_comment :: string

definition evaluate_decision :: "event \<Rightarrow> decision" where
  "evaluate_decision e =
     (let speed = ev_speed e; limit = ev_speed_limit e;
          overspeed = (speed > limit);
          decision_correct = (\<not> overspeed)
      in \<lparr>d_toll = toll e, d_route = route e, d_overspeed = overspeed,
          d_decision_correct = decision_correct,
          d_comment = (if decision_correct then ''Safe driving, decision OK.''
                       else ''Overspeed detected. Driver must confirm or reject guidance.'')\<rparr>)"

subsection \<open>The application: session state and one run of the script per click\<close>

record payload =
  p_event :: "event option"
  p_decision :: "decision option"
  p_driver_response :: response

record session =
  bc :: Blockchain
  cipher :: AESCipher
  current_event :: "event option"
  current_decision :: "decision option"
  driver_response :: "response option"
  rejected_cases :: "tx list"

datatype notice = Success string | Warning string | Error string | Info string | Uncaught error

text \<open>
  Session state initialisation (app.py lines 50 to 62); \<open>env\<close> is the environment variable,
  \<open>now\<close> the genesis timestamp. An exception of \<open>AESCipher()\<close> ends the script.
\<close>

definition session_init :: "payload externals \<Rightarrow> string option \<Rightarrow> string \<Rightarrow> error + session" where
  "session_init L env now =
     (let b = Blockchain_init L now in
      case AESCipher_init env of
        Inl e \<Rightarrow> Inl e
      | Inr c \<Rightarrow> Inr \<lparr>bc = b, cipher = c, current_event = None, current_decision = None,
                     driver_response = None, rejected_cases = []\<rparr>)"

text \<open>
  Streamlit runs the whole script once per interaction, and at most one button reads as
  clicked in a run. A click carries what the run draws from outside: the event built from
  the selected row, the nonce, the timestamp.
\<close>

datatype click =
    No_click
  | Load_IoT_Event event
  | Decision_Engine
  | Confirm_Guidance
  | Reject_Guidance
  | Encrypt_Save bytes
  | Mine_Block string

text \<open>Step 1, lines 87 to 91.\<close>

definition load_event :: "click \<Rightarrow> session \<Rightarrow> notice list \<times> session" where
  "load_event c s =
     (case c of
        Load_IoT_Event ev \<Rightarrow>
          ([Success ''IoT event loaded!''],
           s\<lparr>current_event := Some ev, current_decision := None, driver_response := None\<rparr>)
      | _ \<Rightarrow> ([], s))"

text \<open>Step 2, lines 102 to 110.\<close>

definition decision_engine :: "click \<Rightarrow> session \<Rightarrow> notice list \<times> session" where
  "decision_engine c s =
     (case c of
        Decision_Engine \<Rightarrow>
          (case current_event s of
             None \<Rightarrow> ([Warning ''Load an IoT event first!''], s)
           | Some ev \<Rightarrow>
               ([Success ''Decision generated!''],
                s\<lparr>current_decision := Some (evaluate_decision ev), driver_response := None\<rparr>))
      | _ \<Rightarrow> ([], s))"

text \<open>
  Step 3, lines 141 to 155. The two buttons are only created, hence only read, when the
  current decision reports overspeed. The dash in the source's auto-approval message is
  outside ASCII and is written as a hyphen here.
\<close>

definition driver_response_step :: "click \<Rightarrow> session \<Rightarrow> notice list \<times> session" where
  "driver_response_step c s =
     (case current_decision s of
        None \<Rightarrow> ([Info ''Run decision engine first!''], s)
      | Some dec \<Rightarrow>
          if \<not> d_overspeed dec then
            ([Success ''No overspeed detected - system auto-approved.''],
             s\<lparr>driver_response := Some AUTO_SAFE\<rparr>)
          else
            (case c of
               Confirm_Guidance \<Rightarrow> ([], s\<lparr>driver_response := Some CONFIRMED\<rparr>)
             | Reject_Guidance \<Rightarrow> ([], s\<lparr>driver_response := Some REJECTED\<rparr>)
             | _ \<Rightarrow> ([], s)))"

text \<open>Step 4, lines 171 to 212: encrypt the payload, build \<open>tx\<close>, dispatch on the response.\<close>

definition build_tx :: "payload externals \<Rightarrow> bytes \<Rightarrow> response \<Rightarrow> session \<Rightarrow> tx" where
  "build_tx L nonce r s =
     (let pl = \<lparr>p_event = current_event s, p_decision = current_decision s,
                p_driver_response = r\<rparr>;
          (nonce_hex, ciphertext_hex) = encrypt L (cipher s) nonce pl;
          meta_vehicle = (case current_event s of Some ev \<Rightarrow> ev_vehicle ev | None \<Rightarrow> None);
          meta_exit = (case current_event s of Some ev \<Rightarrow> ev_exit_point ev | None \<Rightarrow> None)
      in \<lparr>tx_nonce = nonce_hex, tx_ciphertext = ciphertext_hex, tx_driver_response = r,
          tx_vehicle = meta_vehicle, tx_exit_point = meta_exit\<rparr>)"

definition encrypt_save :: "payload externals \<Rightarrow> click \<Rightarrow> session \<Rightarrow> notice list \<times> session" where
  "encrypt_save L c s =
     (case c of
        Encrypt_Save nonce \<Rightarrow>
          (case driver_response s of
             None \<Rightarrow> ([Warning ''Get driver confirmation/rejection first!''], s)
           | Some r \<Rightarrow>
               let t = build_tx L nonce r s in
               if r = REJECTED then
                 ([Error ''Rejected guidance stored ONLY in 'Rejected Guidance' tab (not on blockchain).''],
                  s\<lparr>rejected_cases := rejected_cases s @ [t]\<rparr>)
               else
                 ([Success ''Transaction added to pending blockchain block!''],
                  s\<lparr>bc := add_tx t (bc s)\<rparr>))
      | _ \<Rightarrow> ([], s))"

text \<open>
  Step 5, lines 214 to 219. An exception of \<open>mine\<close> would end the run with the session as
  it was.
\<close>

definition mine_block :: "payload externals \<Rightarrow> click \<Rightarrow> session \<Rightarrow> notice list \<times> session" where
  "mine_block L c s =
     (case c of
        Mine_Block now \<Rightarrow>
          if current_tx (bc s) = [] then ([Warning ''No pending transactions to mine!''], s)
          else
            (case mine L now (bc s) of
               Inl e \<Rightarrow> ([Uncaught e], s)
             | Inr (block, b') \<Rightarrow>
                 ([Success (''Block #'' @ str_int (index block) @ '' successfully mined!'')],
                  s\<lparr>bc := b'\<rparr>))
      | _ \<Rightarrow> ([], s))"

definition and_then ::
  "notice list \<times> session \<Rightarrow> (session \<Rightarrow> notice list \<times> session) \<Rightarrow> notice list \<times> session" where
  "and_then r f = (let (ns, s) = r; (ns', s') = f s in (ns @ ns', s'))"

definition rerun :: "payload externals \<Rightarrow> click \<Rightarrow> session \<Rightarrow> notice list \<times> session" where
  "rerun L c s =
     and_then (and_then (and_then (and_then (load_event c s) (decision_engine c))
       (driver_response_step c)) (encrypt_save L c)) (mine_block L c)"

definition run :: "payload externals \<Rightarrow> session \<Rightarrow> click list \<Rightarrow> session" where
  "run L s cs = foldl (\<lambda>s c. snd (rerun L c s)) s cs"

subsection \<open>Reachable ledgers, collisions, and a stand-in for the library\<close>

text \<open>The ledgers a program can hold: built by \<open>Blockchain()\<close>, \<open>add_tx\<close> and \<open>mine\<close>.\<close>

inductive ledger :: "'p externals \<Rightarrow> Blockchain \<Rightarrow> bool" for L :: "'p externals" where
  ledger_new: "ledger L (Blockchain_init L now)"
| ledger_add_tx: "ledger L self \<Longrightarrow> ledger L (add_tx t self)"
| ledger_mine: "ledger L self \<Longrightarrow> mine L now self = Inr (blk, self') \<Longrightarrow> ledger L self'"

definition hashed :: "Blockchain \<Rightarrow> bool" where
  "hashed self = (chain self \<noteq> [] \<and> (\<forall>b \<in> set (chain self). hash b \<noteq> None))"

text \<open>Two distinct inputs with the same digest.\<close>

definition collision :: "'p externals \<Rightarrow> string \<Rightarrow> string \<Rightarrow> bool" where
  "collision L s s' = (s \<noteq> s' \<and> sha256_hexdigest L s = sha256_hexdigest L s')"

text \<open>
  A small instance of the library parameters, used only to run the model on concrete
  inputs: the digest is the identity, the cipher appends the nonce as its tag.
\<close>

definition toy_externals :: "('p \<Rightarrow> bytes) \<Rightarrow> (bytes \<Rightarrow> error + 'p) \<Rightarrow> 'p externals" where
  "toy_externals d l =
     \<lparr>sha256_hexdigest = (\<lambda>s. s),
      aesgcm_encrypt = (\<lambda>k n pt. pt @ n),
      aesgcm_decrypt = (\<lambda>k n ct.
        if length n \<le> length ct \<and> drop (length ct - length n) ct = n
        then Inr (take (length ct - length n) ct) else Inl InvalidTag),
      json_dumps_utf8 = d,
      json_loads_utf8 = l\<rparr>"

definition toy_bytes :: "bytes externals" where
  "toy_bytes = toy_externals (\<lambda>x. x) Inr"

definition tx0 :: tx where
  "tx0 = \<lparr>tx_nonce = ''00'', tx_ciphertext = ''ff'', tx_driver_response = CONFIRMED,
          tx_vehicle = Some ''NY-ABC1234'', tx_exit_point = None\<rparr>"

definition toy_app :: "payload externals" where
  "toy_app = toy_externals (\<lambda>p. []) (\<lambda>b. Inl JSONDecodeError)"

definition tx1 :: tx where
  "tx1 = \<lparr>tx_nonce = ''02'', tx_ciphertext = ''dd'', tx_driver_response = AUTO_SAFE,
          tx_vehicle = Some ''CA-QRS5555'', tx_exit_point = Some ''Times Square''\<rparr>"

definition txR :: tx where
  "txR = \<lparr>tx_nonce = ''01'', tx_ciphertext = ''ee'', tx_driver_response = REJECTED,
          tx_vehicle = Some ''NJ-XYZ9876'', tx_exit_point = Some ''Lincoln Tunnel''\<rparr>"

text \<open>The 32 bytes the fallback hex string denotes.\<close>

definition fallback_key :: bytes where
  "fallback_key =
     [0x00, 0x11, 0x22, 0x33, 0x44, 0x55, 0x66, 0x77, 0x88, 0x99, 0xAA, 0xBB, 0xCC, 0xDD, 0xEE, 0xFF,
      0x00, 0x11, 0x22, 0x33, 0x44, 0x55, 0x66, 0x77, 0x88, 0x99, 0xAA, 0xBB, 0xCC, 0xDD, 0xEE, 0xFF]"


subsection \<open>Invariants of the ledger and of the session\<close>

text \<open>Hash linkage of consecutive blocks, and a block whose stored hash is the digest of
  its other four fields.\<close>

fun linked :: "Block list \<Rightarrow> bool" where
  "linked [] = True"
| "linked [b] = True"
| "linked (b # c # bs) =
     (hash b = Some (prev_hash c) \<and> index c = index b + 1 \<and> linked (c # bs))"

definition sealed :: "'p externals \<Rightarrow> Block \<Rightarrow> bool" where
  "sealed L b = (hash b = Some (compute_hash L (b\<lparr>hash := None\<rparr>)))"

definition well_formed :: "'p externals \<Rightarrow> Blockchain \<Rightarrow> bool" where
  "well_formed L self =
     (chain self \<noteq> [] \<and> linked (chain self) \<and> (\<forall>b \<in> set (chain self). sealed L b)
      \<and> index (hd (chain self)) = 0 \<and> prev_hash (hd (chain self)) = ''0'')"

text \<open>
  A mutation from outside the class, \<open>bc.chain[i].data = d\<close>: the stored hash of the block
  is left as it was.
\<close>

definition tamper :: "nat \<Rightarrow> block_data \<Rightarrow> Blockchain \<Rightarrow> Blockchain" where
  "tamper i d self = self\<lparr>chain := (chain self)[i := (chain self ! i)\<lparr>data := d\<rparr>]\<rparr>"

definition no_rejected :: "tx list \<Rightarrow> bool" where
  "no_rejected ts = (\<forall>t \<in> set ts. tx_driver_response t \<noteq> REJECTED)"

definition clean :: "Blockchain \<Rightarrow> bool" where
  "clean b =
     ((\<forall>blk \<in> set (chain b). no_rejected (data_txs (data blk))) \<and> no_rejected (current_tx b))"

definition quarantined :: "session \<Rightarrow> bool" where
  "quarantined s =
     (clean (bc s) \<and> (\<forall>t \<in> set (rejected_cases s). tx_driver_response t = REJECTED))"

subsection \<open>Concrete runs\<close>

definition demo_ledger :: Blockchain where
  "demo_ledger =
     snd (projr (mine toy_bytes ''t1'' (add_tx tx0 (Blockchain_init toy_bytes ''t0''))))"

definition speeding_event :: event where
  "speeding_event = \<lparr>ev_vehicle = Some ''NJ-XYZ9876'', ev_phone = None, ev_email = None,
     ev_entry_point = Some ''Wall Street'', ev_exit_point = Some ''Lincoln Tunnel'',
     ev_entry_time = ''2025-11-27T08:00:00'', ev_exit_time = ''2025-11-27T08:30:00'',
     ev_speed = 120, ev_speed_limit = 100, ev_congestion = 6 / 10,
     ev_travel_time_min = Some 30\<rparr>"

definition demo_session :: session where
  "demo_session = \<lparr>bc = Blockchain_init toy_app ''t0'', cipher = \<lparr>key = fallback_key\<rparr>,
          current_event = None, current_decision = None, driver_response = None,
          rejected_cases = []\<rparr>"

definition demo_clicks :: "click list" where
  "demo_clicks =
     [Load_IoT_Event speeding_event, Decision_Engine, Reject_Guidance, Encrypt_Save [1, 2, 3],
      Load_IoT_Event speeding_event, Decision_Engine, Confirm_Guidance, Encrypt_Save [4, 5, 6],
      Mine_Block ''t1'']"

section \<open>Properties\<close>

subsection \<open>Hexadecimal coding\<close>






subsection \<open>The encoding a block is hashed over\<close>

lemma dumps_four_fields:
  "dumps (JObj [(''index'', JInt i), (''timestamp'', JStr t), (''data'', dj),
                (''prev_hash'', JStr p)])
   = ''{'' @ quote ''data'' @ '': '' @ dumps dj @ '', '' @ quote ''index'' @ '': '' @ str_int i
      @ '', '' @ quote ''prev_hash'' @ '': '' @ quote p @ '', '' @ quote ''timestamp'' @ '': ''
      @ quote t @ ''}''"
  by (simp add: item_def)

lemma dumps_five_fields:
  "dumps (JObj [(''index'', JInt i), (''timestamp'', JStr t), (''data'', dj),
                (''prev_hash'', JStr p), (''hash'', JStr h)])
   = ''{'' @ quote ''data'' @ '': '' @ dumps dj @ '', '' @ quote ''hash'' @ '': '' @ quote h
      @ '', '' @ quote ''index'' @ '': '' @ str_int i @ '', '' @ quote ''prev_hash'' @ '': ''
      @ quote p @ '', '' @ quote ''timestamp'' @ '': '' @ quote t @ ''}''"
  by (simp add: item_def)

lemma quote_hash_index: "quote ''hash'' @ xs \<noteq> quote ''index'' @ ys"
  by (simp add: quote_def esc_char_def)

lemma dumps_four_five_differ:
  "dumps (JObj [(''index'', JInt i), (''timestamp'', JStr t), (''data'', dj),
                (''prev_hash'', JStr p), (''hash'', JStr h)])
   \<noteq> dumps (JObj [(''index'', JInt i), (''timestamp'', JStr t), (''data'', dj),
                  (''prev_hash'', JStr p)])"
  unfolding dumps_four_fields dumps_five_fields
  using quote_hash_index by simp

lemma Block_init_fields:
  "index (Block_init L i t d p) = i" "timestamp (Block_init L i t d p) = t"
  "data (Block_init L i t d p) = d" "prev_hash (Block_init L i t d p) = p"
  "hash (Block_init L i t d p) =
     Some (compute_hash L \<lparr>index = i, timestamp = t, data = d, prev_hash = p, hash = None\<rparr>)"
  by (simp_all add: Block_init_def Let_def)

text \<open>
  C4. The hash stored by \<open>Block(index, timestamp, data, prev_hash)\<close> is the digest of the
  sorted-key JSON encoding of exactly the four fields \<open>index\<close>, \<open>timestamp\<close>, \<open>data\<close>
  and \<open>prev_hash\<close>; the key \<open>hash\<close> is not part of what is encoded. Being a function of
  the four arguments, it is the same for any two blocks built from equal arguments.
\<close>

theorem stored_hash_of_four_fields:
  "hash (Block_init L i t d p) =
     Some (sha256_hexdigest L (dumps (JObj
       [(''index'', JInt i), (''timestamp'', JStr t), (''data'', data_json d),
        (''prev_hash'', JStr p)])))
   \<and> dumps (JObj [(''index'', JInt i), (''timestamp'', JStr t), (''data'', data_json d),
                  (''prev_hash'', JStr p)])
     = ''{'' @ quote ''data'' @ '': '' @ dumps (data_json d) @ '', '' @ quote ''index'' @ '': ''
        @ str_int i @ '', '' @ quote ''prev_hash'' @ '': '' @ quote p @ '', ''
        @ quote ''timestamp'' @ '': '' @ quote t @ ''}''"
proof
  show "hash (Block_init L i t d p) =
     Some (sha256_hexdigest L (dumps (JObj
       [(''index'', JInt i), (''timestamp'', JStr t), (''data'', data_json d),
        (''prev_hash'', JStr p)])))"
    by (simp add: Block_init_def Let_def compute_hash_def dict_of_def del: dumps.simps)
qed (rule dumps_four_fields)

text \<open>
  C10. On a constructed block \<open>self.__dict__\<close> holds the key \<open>hash\<close> as well, so
  \<open>compute_hash()\<close> digests a different string than the constructor did: unless these
  two strings collide under SHA-256, the digest it returns is not the stored hash.
\<close>

theorem compute_hash_not_reproducible:
  assumes "b = Block_init L i t d p"
    and "\<not> collision L (dumps (JObj (dict_of b))) (dumps (JObj (dict_of (b\<lparr>hash := None\<rparr>))))"
  shows "''hash'' \<in> fst ` set (dict_of b) \<and> ''hash'' \<notin> fst ` set (dict_of (b\<lparr>hash := None\<rparr>))
         \<and> hash b = Some (sha256_hexdigest L (dumps (JObj (dict_of (b\<lparr>hash := None\<rparr>)))))
         \<and> hash b \<noteq> Some (compute_hash L b)"
proof -
  have d: "dumps (JObj (dict_of b)) \<noteq> dumps (JObj (dict_of (b\<lparr>hash := None\<rparr>)))"
    using dumps_four_five_differ unfolding assms(1)
    by (simp add: Block_init_def Let_def dict_of_def)
  with assms(2) have
    "sha256_hexdigest L (dumps (JObj (dict_of b)))
       \<noteq> sha256_hexdigest L (dumps (JObj (dict_of (b\<lparr>hash := None\<rparr>))))"
    by (simp add: collision_def)
  then show ?thesis
    unfolding assms(1)
    by (simp add: Block_init_def Let_def dict_of_def compute_hash_def)
qed

theorem compute_hash_not_reproducible_witness:
  "hash (Block_init toy_bytes 1 ''t1'' (List_data [tx0]) ''0'')
     \<noteq> Some (compute_hash toy_bytes (Block_init toy_bytes 1 ''t1'' (List_data [tx0]) ''0''))"
proof -
  let ?b = "Block_init toy_bytes 1 ''t1'' (List_data [tx0]) ''0''"
  have "\<not> collision toy_bytes (dumps (JObj (dict_of ?b))) (dumps (JObj (dict_of (?b\<lparr>hash := None\<rparr>))))"
    by (simp add: collision_def toy_bytes_def toy_externals_def)
  from compute_hash_not_reproducible [OF refl this] show ?thesis by (elim conjE)
qed

subsection \<open>Mining\<close>

lemma hashed_init: "hashed (Blockchain_init L now)"
  by (simp add: hashed_def Blockchain_init_def create_genesis_def Let_def Block_init_fields)

lemma hashed_add_tx: "hashed self \<Longrightarrow> hashed (add_tx t self)"
  by (simp add: hashed_def add_tx_def)

lemma hashed_mine: "hashed self \<Longrightarrow> mine L now self = Inr (blk, self') \<Longrightarrow> hashed self'"
  by (auto simp: hashed_def mine_def Let_def Block_init_fields split: if_splits option.splits)

lemma ledger_hashed: "ledger L self \<Longrightarrow> hashed self"
  by (induction rule: ledger.induct) (auto intro: hashed_init hashed_add_tx hashed_mine)

text \<open>
  C2. On every reachable ledger with a non-empty pending pool, \<open>mine()\<close> returns a block
  whose index is the head's index plus one, whose \<open>prev_hash\<close> is the head's stored hash
  and whose data is the pending list in insertion order; the chain grows by exactly that
  block and the pool is emptied.
\<close>

theorem mine_commits_pool:
  assumes "ledger L self" and "current_tx self \<noteq> []"
  shows "\<exists>blk self' h. mine L now self = Inr (blk, self')
           \<and> index blk = index (last (chain self)) + 1
           \<and> hash (last (chain self)) = Some h \<and> prev_hash blk = h
           \<and> data blk = List_data (current_tx self)
           \<and> chain self' = chain self @ [blk]
           \<and> length (chain self') = length (chain self) + 1
           \<and> current_tx self' = []"
proof -
  from assms(1) have h: "hashed self" by (rule ledger_hashed)
  then have ne: "chain self \<noteq> []" by (simp add: hashed_def)
  with h have "hash (last (chain self)) \<noteq> None" by (simp add: hashed_def)
  then obtain h where "hash (last (chain self)) = Some h" by auto
  with ne show ?thesis
    by (simp add: mine_def Let_def Block_init_fields)
qed

theorem mine_commits_pool_witness:
  "\<exists>blk self'. mine toy_bytes ''t1'' (add_tx tx0 (Blockchain_init toy_bytes ''t0'')) = Inr (blk, self')
     \<and> index blk = 1 \<and> data blk = List_data [tx0] \<and> length (chain self') = 2
     \<and> current_tx self' = []"
proof -
  have l: "ledger toy_bytes (add_tx tx0 (Blockchain_init toy_bytes ''t0''))"
    by (intro ledger_add_tx ledger_new)
  have p: "current_tx (add_tx tx0 (Blockchain_init toy_bytes ''t0'')) \<noteq> []"
    by (simp add: add_tx_def)
  from mine_commits_pool [OF l p, of "''t1''"] show ?thesis
    by (auto simp: add_tx_def Blockchain_init_def create_genesis_def Let_def Block_init_fields)
qed

subsection \<open>Linkage of the chain, and what the ledger does not check\<close>

lemma linked_snoc:
  "linked bs \<Longrightarrow> bs \<noteq> [] \<Longrightarrow> hash (last bs) = Some (prev_hash b)
   \<Longrightarrow> index b = index (last bs) + 1 \<Longrightarrow> linked (bs @ [b])"
  by (induction bs rule: linked.induct) auto

lemma linked_nth:
  "linked bs \<Longrightarrow> Suc i < length bs \<Longrightarrow>
   hash (bs ! i) = Some (prev_hash (bs ! Suc i)) \<and> index (bs ! Suc i) = index (bs ! i) + 1"
proof (induction bs arbitrary: i rule: linked.induct)
  case (3 b c bs)
  then show ?case by (cases i) auto
qed simp_all

lemma sealed_Block_init: "sealed L (Block_init L i t d p)"
  by (simp add: sealed_def Block_init_def Let_def)

lemma well_formed_init: "well_formed L (Blockchain_init L now)"
  by (simp add: well_formed_def Blockchain_init_def create_genesis_def Let_def
      sealed_Block_init Block_init_fields)

lemma well_formed_add_tx: "well_formed L self \<Longrightarrow> well_formed L (add_tx t self)"
  by (simp add: well_formed_def add_tx_def)

lemma well_formed_mine:
  assumes "well_formed L self" and "mine L now self = Inr (blk, self')"
  shows "well_formed L self'"
proof -
  from assms(1) have ne: "chain self \<noteq> []" by (simp add: well_formed_def)
  from assms(2) ne obtain h where h: "hash (last (chain self)) = Some h"
    and blk: "blk = Block_init L (index (last (chain self)) + 1) now
                      (List_data (current_tx self)) h"
    and self': "self' = self\<lparr>chain := chain self @ [blk], current_tx := []\<rparr>"
    by (auto simp: mine_def Let_def split: option.splits)
  have "linked (chain self @ [blk])"
    using assms(1) ne h blk
    by (intro linked_snoc) (simp_all add: well_formed_def Block_init_fields)
  with assms(1) ne show ?thesis
    unfolding self' by (simp add: well_formed_def blk sealed_Block_init)
qed

lemma ledger_well_formed: "ledger L self \<Longrightarrow> well_formed L self"
  by (induction rule: ledger.induct)
    (auto intro: well_formed_init well_formed_add_tx well_formed_mine)

lemma mine_demo:
  "mine toy_bytes ''t1'' (add_tx tx0 (Blockchain_init toy_bytes ''t0''))
     = Inr (fst (projr (mine toy_bytes ''t1'' (add_tx tx0 (Blockchain_init toy_bytes ''t0'')))),
            demo_ledger)"
  by (simp add: demo_ledger_def mine_def add_tx_def Blockchain_init_def create_genesis_def
      Let_def Block_init_fields)

lemma ledger_demo: "ledger toy_bytes demo_ledger"
  by (rule ledger_mine [OF ledger_add_tx [OF ledger_new] mine_demo])

lemma chain_demo:
  "chain demo_ledger =
     [Block_init toy_bytes 0 ''t0'' (Dict_data [(''msg'', ''Genesis Block'')]) ''0'',
      Block_init toy_bytes 1 ''t1'' (List_data [tx0])
        (compute_hash toy_bytes \<lparr>index = 0, timestamp = ''t0'',
           data = Dict_data [(''msg'', ''Genesis Block'')], prev_hash = ''0'', hash = None\<rparr>)]"
  by (simp add: demo_ledger_def mine_def add_tx_def Blockchain_init_def create_genesis_def
      Let_def Block_init_fields)

text \<open>
  C3, as stated, fails on the code: class \<open>Blockchain\<close> has no \<open>verifyChain\<close>; its methods
  are \<open>add_tx\<close> and \<open>mine\<close>, and neither recomputes or compares a hash. On the two-block
  ledger below, the data of committed block 1 is replaced: its stored hash stays as it
  was and no longer is the digest of its fields, yet \<open>add_tx\<close> and \<open>mine\<close> run as on the
  untouched ledger and \<open>mine\<close> returns the very same block. No operation reports a failure.
\<close>

theorem tampering_unreported_counterexample:
  "data (chain (tamper 1 (List_data [tx1]) demo_ledger) ! 1) \<noteq> data (chain demo_ledger ! 1)
   \<and> hash (chain (tamper 1 (List_data [tx1]) demo_ledger) ! 1) = hash (chain demo_ledger ! 1)
   \<and> \<not> sealed toy_bytes (chain (tamper 1 (List_data [tx1]) demo_ledger) ! 1)
   \<and> \<not> isl (mine toy_bytes ''t2'' (add_tx tx1 (tamper 1 (List_data [tx1]) demo_ledger)))
   \<and> fst (projr (mine toy_bytes ''t2'' (add_tx tx1 (tamper 1 (List_data [tx1]) demo_ledger))))
       = fst (projr (mine toy_bytes ''t2'' (add_tx tx1 demo_ledger)))"
proof -
  have a: "data (chain (tamper 1 (List_data [tx1]) demo_ledger) ! 1)
             \<noteq> data (chain demo_ledger ! 1)"
    by (simp add: tamper_def chain_demo Block_init_fields tx0_def tx1_def)
  have b: "hash (chain (tamper 1 (List_data [tx1]) demo_ledger) ! 1)
             = hash (chain demo_ledger ! 1)"
    by (simp add: tamper_def chain_demo)
  have c: "\<not> sealed toy_bytes (chain (tamper 1 (List_data [tx1]) demo_ledger) ! 1)"
    apply (simp add: tamper_def chain_demo sealed_def Block_init_def Let_def compute_hash_def
        dict_of_def toy_bytes_def toy_externals_def del: dumps.simps)
    apply (simp add: tx_json_def tx0_def tx1_def item_def quote_def esc_char_def opt_json_def)
    done
  have d: "\<not> isl (mine toy_bytes ''t2'' (add_tx tx1 (tamper 1 (List_data [tx1]) demo_ledger)))"
    by (simp add: mine_def add_tx_def tamper_def chain_demo Let_def Block_init_fields)
  have e: "fst (projr (mine toy_bytes ''t2''
                  (add_tx tx1 (tamper 1 (List_data [tx1]) demo_ledger))))
       = fst (projr (mine toy_bytes ''t2'' (add_tx tx1 demo_ledger)))"
    by (simp add: mine_def add_tx_def tamper_def chain_demo Let_def Block_init_fields)
  from a b c d e show ?thesis by blast
qed

text \<open>
  C3, as amended. What a chain verification would test holds by construction on every
  ledger reached by \<open>Blockchain()\<close>, \<open>add_tx\<close> and \<open>mine\<close> with no other mutation: the
  genesis block has index 0 and \<open>prev_hash\<close> "0"; for every index \<open>i > 0\<close> the block's
  \<open>prev_hash\<close> is the predecessor's stored hash and its index the predecessor's plus one;
  and every block's stored hash is the digest of its own index, timestamp, data and
  \<open>prev_hash\<close>.
\<close>

theorem chain_linked_by_construction:
  assumes "ledger L self"
  shows "chain self \<noteq> [] \<and> index (hd (chain self)) = 0 \<and> prev_hash (hd (chain self)) = ''0''
       \<and> (\<forall>i. 0 < i \<and> i < length (chain self) \<longrightarrow>
            hash (chain self ! (i - 1)) = Some (prev_hash (chain self ! i))
          \<and> index (chain self ! i) = index (chain self ! (i - 1)) + 1)
       \<and> (\<forall>b \<in> set (chain self). hash b = Some (compute_hash L (b\<lparr>hash := None\<rparr>)))"
proof -
  from assms have w: "well_formed L self" by (rule ledger_well_formed)
  have "hash (chain self ! (i - 1)) = Some (prev_hash (chain self ! i))
          \<and> index (chain self ! i) = index (chain self ! (i - 1)) + 1"
    if "0 < i" "i < length (chain self)" for i
  proof -
    from that obtain j where "i = Suc j" by (cases i) auto
    with that w linked_nth [of "chain self" j] show ?thesis by (simp add: well_formed_def)
  qed
  with w show ?thesis unfolding well_formed_def sealed_def by blast
qed

theorem chain_linked_by_construction_witness:
  "length (chain demo_ledger) = 2
   \<and> hash (chain demo_ledger ! 0) = Some (prev_hash (chain demo_ledger ! 1))
   \<and> index (chain demo_ledger ! 1) = 1"
proof -
  have l: "length (chain demo_ledger) = 2" by (simp add: chain_demo)
  from chain_linked_by_construction [OF ledger_demo] l
  have "hash (chain demo_ledger ! (1 - 1)) = Some (prev_hash (chain demo_ledger ! 1))
      \<and> index (chain demo_ledger ! 1) = index (chain demo_ledger ! (1 - 1)) + 1"
    by (elim conjE allE [of _ 1]) simp
  with l show ?thesis by (simp add: chain_demo Block_init_fields)
qed

subsection \<open>Adding a transaction\<close>

lemma add_tx_all:
  "current_tx (foldl (\<lambda>b t. add_tx t b) self ts) = current_tx self @ ts
   \<and> chain (foldl (\<lambda>b t. add_tx t b) self ts) = chain self"
  by (induction ts arbitrary: self) (simp_all add: add_tx_def)

text \<open>
  C5, as stated, fails on the code: \<open>add_tx\<close> has no check and cannot raise. Called with a
  \<open>REJECTED\<close> transaction on a fresh ledger, it puts the transaction into the pending
  pool.
\<close>

theorem add_tx_rejected_counterexample:
  "tx_driver_response txR = REJECTED
   \<and> current_tx (Blockchain_init toy_bytes ''t0'') = []
   \<and> current_tx (add_tx txR (Blockchain_init toy_bytes ''t0'')) = [txR]"
  by (simp add: txR_def add_tx_def Blockchain_init_def create_genesis_def)

text \<open>
  C5, as amended. \<open>add_tx(tx)\<close> appends every transaction, whatever its
  \<open>driver_response\<close>, to the end of the pending pool and leaves the chain as it is; a
  sequence of calls appends the transactions in call order.
\<close>

theorem add_tx_appends:
  "current_tx (add_tx t self) = current_tx self @ [t] \<and> chain (add_tx t self) = chain self
   \<and> current_tx (foldl (\<lambda>b t. add_tx t b) self ts) = current_tx self @ ts
   \<and> chain (foldl (\<lambda>b t. add_tx t b) self ts) = chain self"
  by (simp add: add_tx_all) (simp add: add_tx_def)

subsection \<open>Mining with nothing pending\<close>

text \<open>
  C6, as stated, fails on the code: \<open>mine\<close> does not look at the pool. On a fresh ledger,
  whose pool is empty, it returns a block with an empty transaction list and the chain
  grows from one block to two.
\<close>

theorem mine_empty_pool_counterexample:
  "current_tx (Blockchain_init toy_bytes ''t0'') = []
   \<and> length (chain (Blockchain_init toy_bytes ''t0'')) = 1
   \<and> \<not> isl (mine toy_bytes ''t1'' (Blockchain_init toy_bytes ''t0''))
   \<and> data (fst (projr (mine toy_bytes ''t1'' (Blockchain_init toy_bytes ''t0'')))) = List_data []
   \<and> length (chain (snd (projr (mine toy_bytes ''t1'' (Blockchain_init toy_bytes ''t0''))))) = 2"
  by (simp add: mine_def Blockchain_init_def create_genesis_def Let_def Block_init_fields)

text \<open>
  C6, as amended. The empty pool is handled by the caller: the Mine Block handler of
  app.py tests the pool first and, when it is empty, shows the warning and does not call
  \<open>mine\<close>, so the session (chain and pool included) is unchanged. \<open>mine\<close> itself, on a
  reachable ledger with an empty pool, raises nothing and appends a block whose data is
  the empty list.
\<close>

theorem mine_block_guard:
  "(current_tx (bc s) = [] \<longrightarrow>
      mine_block L (Mine_Block now) s = ([Warning ''No pending transactions to mine!''], s))
   \<and> (ledger L self \<and> current_tx self = [] \<longrightarrow>
      (\<exists>blk. mine L now self = Inr (blk, self\<lparr>chain := chain self @ [blk]\<rparr>)
             \<and> data blk = List_data []))"
proof (intro conjI impI)
  assume "current_tx (bc s) = []"
  then show "mine_block L (Mine_Block now) s = ([Warning ''No pending transactions to mine!''], s)"
    by (simp add: mine_block_def)
next
  assume a: "ledger L self \<and> current_tx self = []"
  then have h: "hashed self" by (auto intro: ledger_hashed)
  then have ne: "chain self \<noteq> []" by (simp add: hashed_def)
  with h have "hash (last (chain self)) \<noteq> None" by (simp add: hashed_def)
  then obtain h where "hash (last (chain self)) = Some h" by auto
  with ne a show "\<exists>blk. mine L now self = Inr (blk, self\<lparr>chain := chain self @ [blk]\<rparr>)
             \<and> data blk = List_data []"
    by (simp add: mine_def Let_def Block_init_fields)
qed

theorem mine_block_guard_witness:
  "mine_block toy_app (Mine_Block ''t1'') demo_session
     = ([Warning ''No pending transactions to mine!''], demo_session)
   \<and> (\<exists>blk. mine toy_app ''t1'' (Blockchain_init toy_app ''t0'')
        = Inr (blk, (Blockchain_init toy_app ''t0'')
                 \<lparr>chain := chain (Blockchain_init toy_app ''t0'') @ [blk]\<rparr>)
      \<and> data blk = List_data [])"
proof -
  have a: "current_tx (bc demo_session) = []"
    by (simp add: demo_session_def Blockchain_init_def create_genesis_def)
  have b: "ledger toy_app (Blockchain_init toy_app ''t0'')"
    by (rule ledger_new)
  have c: "current_tx (Blockchain_init toy_app ''t0'') = []"
    by (simp add: Blockchain_init_def create_genesis_def)
  from mine_block_guard [of demo_session toy_app "''t1''" "Blockchain_init toy_app ''t0''"] a b c
  show ?thesis by blast
qed

subsection \<open>Key provisioning\<close>

lemma fromhex_fallback: "fromhex fallback_key_hex = Some fallback_key"
  by (simp add: fallback_key_hex_def fallback_key_def hexval_def is_space_def)

lemma init_unset: "AESCipher_init None = Inr \<lparr>key = fallback_key\<rparr>"
  by (simp add: AESCipher_init_def fromhex_fallback) (simp add: fallback_key_def)

text \<open>
  C9, as stated, fails on the code: with \<open>POLICE_KEY_HEX\<close> unset, \<open>AESCipher()\<close> raises
  nothing and returns a cipher keyed with the hard-coded fallback.
\<close>

theorem missing_key_counterexample:
  "AESCipher_init None = Inr \<lparr>key = fallback_key\<rparr>"
  by (simp add: AESCipher_init_def fromhex_fallback) (simp add: fallback_key_def)

text \<open>
  C9, as amended. When \<open>POLICE_KEY_HEX\<close> is unset or empty, \<open>AESCipher()\<close> succeeds with
  the fixed 32-byte key 00112233...EEFF as a silent default. The constructor raises only
  for a configured value: \<open>ValueError\<close> when it is not hexadecimal or does not decode to
  32 bytes; a configured 32-byte value becomes the key.
\<close>

theorem AESCipher_init_cases:
  "AESCipher_init None = Inr \<lparr>key = fallback_key\<rparr>
   \<and> AESCipher_init (Some []) = Inr \<lparr>key = fallback_key\<rparr>
   \<and> length fallback_key = 32
   \<and> (s \<noteq> [] \<longrightarrow> AESCipher_init (Some s) =
        (case fromhex s of
           None \<Rightarrow> Inl fromhex_error
         | Some k \<Rightarrow> if length k = 32 then Inr \<lparr>key = k\<rparr>
                     else Inl (ValueError ''POLICE_KEY must be 32 bytes (256-bit)'')))"
proof (intro conjI impI)
  show "AESCipher_init None = Inr \<lparr>key = fallback_key\<rparr>"
    by (rule init_unset)
  show "AESCipher_init (Some []) = Inr \<lparr>key = fallback_key\<rparr>"
    by (simp add: AESCipher_init_def fromhex_fallback) (simp add: fallback_key_def)
  show "length fallback_key = 32"
    by (simp add: fallback_key_def)
next
  assume "s \<noteq> []"
  then show "AESCipher_init (Some s) =
        (case fromhex s of
           None \<Rightarrow> Inl fromhex_error
         | Some k \<Rightarrow> if length k = 32 then Inr \<lparr>key = k\<rparr>
                     else Inl (ValueError ''POLICE_KEY must be 32 bytes (256-bit)''))"
    by (simp add: AESCipher_init_def split: option.splits)
qed

theorem AESCipher_init_cases_witness:
  "AESCipher_init (Some ''0011'') = Inl (ValueError ''POLICE_KEY must be 32 bytes (256-bit)'')
   \<and> AESCipher_init (Some ''zz'') = Inl fromhex_error"
proof -
  have a: "fromhex ''0011'' = Some [0x00, 0x11]" and b: "fromhex ''zz'' = None"
    by (simp_all add: hexval_def is_space_def)
  from AESCipher_init_cases [of "''0011''"] a
  have 1: "AESCipher_init (Some ''0011'')
             = Inl (ValueError ''POLICE_KEY must be 32 bytes (256-bit)'')"
    by simp
  from AESCipher_init_cases [of "''zz''"] b
  have 2: "AESCipher_init (Some ''zz'') = Inl fromhex_error"
    by simp
  from 1 2 show ?thesis by blast
qed

subsection \<open>Encryption and decryption\<close>





subsection \<open>No rejected transaction on the chain\<close>

lemma build_tx_response: "tx_driver_response (build_tx L nonce r s) = r"
  by (simp add: build_tx_def Let_def split: prod.splits)

lemma clean_init: "clean (Blockchain_init L now)"
  by (simp add: clean_def no_rejected_def Blockchain_init_def create_genesis_def Let_def
      Block_init_fields)

lemma clean_add_tx: "clean b \<Longrightarrow> tx_driver_response t \<noteq> REJECTED \<Longrightarrow> clean (add_tx t b)"
  by (simp add: clean_def no_rejected_def add_tx_def)

lemma clean_mine: "clean b \<Longrightarrow> mine L now b = Inr (blk, b') \<Longrightarrow> clean b'"
  by (auto simp: clean_def no_rejected_def mine_def Let_def Block_init_fields
      split: if_splits option.splits)

lemma load_event_keeps: "quarantined s \<Longrightarrow> quarantined (snd (load_event c s))"
  by (cases c) (simp_all add: load_event_def quarantined_def)

lemma decision_engine_keeps: "quarantined s \<Longrightarrow> quarantined (snd (decision_engine c s))"
  by (cases c) (simp_all add: decision_engine_def quarantined_def split: option.splits)

lemma driver_response_step_keeps:
  "quarantined s \<Longrightarrow> quarantined (snd (driver_response_step c s))"
  by (cases c) (simp_all add: driver_response_step_def quarantined_def split: option.splits)

lemma encrypt_save_keeps: "quarantined s \<Longrightarrow> quarantined (snd (encrypt_save L c s))"
  by (cases c)
    (auto simp: encrypt_save_def quarantined_def Let_def build_tx_response
      intro: clean_add_tx split: option.splits)

lemma mine_block_keeps: "quarantined s \<Longrightarrow> quarantined (snd (mine_block L c s))"
  by (cases c)
    (auto simp: mine_block_def quarantined_def dest: clean_mine split: sum.splits)

lemma snd_and_then: "snd (and_then r f) = snd (f (snd r))"
  by (simp add: and_then_def split: prod.splits)

lemma rerun_keeps: "quarantined s \<Longrightarrow> quarantined (snd (rerun L c s))"
  by (simp add: rerun_def snd_and_then load_event_keeps decision_engine_keeps
      driver_response_step_keeps encrypt_save_keeps mine_block_keeps)

lemma run_keeps: "quarantined s \<Longrightarrow> quarantined (run L s cs)"
  unfolding run_def by (induction cs arbitrary: s) (simp_all add: rerun_keeps)

lemma session_init_quarantined: "session_init L env now = Inr s \<Longrightarrow> quarantined s"
  by (auto simp: session_init_def Let_def quarantined_def clean_init split: sum.splits)

lemma encrypt_save_rejected:
  "driver_response s = Some REJECTED \<Longrightarrow>
   snd (encrypt_save L (Encrypt_Save nonce) s)
     = s\<lparr>rejected_cases := rejected_cases s @ [build_tx L nonce REJECTED s]\<rparr>"
  by (simp add: encrypt_save_def Let_def)

lemma session_init_toy: "session_init toy_app None ''t0'' = Inr demo_session"
  by (simp add: session_init_def init_unset Let_def demo_session_def)

lemma demo_run:
  "map tx_driver_response (rejected_cases (run toy_app demo_session demo_clicks)) = [REJECTED]
   \<and> length (chain (bc (run toy_app demo_session demo_clicks))) = 2
   \<and> map tx_driver_response
        (data_txs (data (last (chain (bc (run toy_app demo_session demo_clicks))))))
       = [CONFIRMED]"
  by (simp add: demo_clicks_def run_def rerun_def and_then_def load_event_def
      decision_engine_def driver_response_step_def encrypt_save_def mine_block_def
      evaluate_decision_def speeding_event_def demo_session_def build_tx_def encrypt_def Let_def
      add_tx_def mine_def Blockchain_init_def create_genesis_def Block_init_fields)

text \<open>
  C1. In every state the application reaches from its initial session by any sequence of
  clicks, no block of the chain and no entry of the pending pool holds a transaction
  whose \<open>driver_response\<close> is \<open>REJECTED\<close>, and every entry of the rejected-cases list is
  \<open>REJECTED\<close>. When the response is \<open>REJECTED\<close>, the dispatch of Encrypt and Save leaves
  the ledger untouched and appends the transaction to the rejected-cases list only.
\<close>

theorem no_rejected_on_chain:
  assumes "session_init L env now = Inr s0" and "s = run L s0 cs"
  shows "(\<forall>blk \<in> set (chain (bc s)). \<forall>t \<in> set (data_txs (data blk)).
            tx_driver_response t \<noteq> REJECTED)
       \<and> (\<forall>t \<in> set (current_tx (bc s)). tx_driver_response t \<noteq> REJECTED)
       \<and> (\<forall>t \<in> set (rejected_cases s). tx_driver_response t = REJECTED)
       \<and> (driver_response s = Some REJECTED \<longrightarrow>
            bc (snd (encrypt_save L (Encrypt_Save nonce) s)) = bc s
          \<and> rejected_cases (snd (encrypt_save L (Encrypt_Save nonce) s))
              = rejected_cases s @ [build_tx L nonce REJECTED s]
          \<and> tx_driver_response (build_tx L nonce REJECTED s) = REJECTED)"
proof -
  from assms have "quarantined s"
    by (simp add: run_keeps session_init_quarantined)
  then show ?thesis
    by (simp add: quarantined_def clean_def no_rejected_def encrypt_save_rejected
        build_tx_response)
qed

theorem no_rejected_on_chain_witness:
  "session_init toy_app None ''t0'' = Inr demo_session
   \<and> map tx_driver_response (rejected_cases (run toy_app demo_session demo_clicks)) = [REJECTED]
   \<and> length (chain (bc (run toy_app demo_session demo_clicks))) = 2
   \<and> map tx_driver_response
        (data_txs (data (last (chain (bc (run toy_app demo_session demo_clicks))))))
       = [CONFIRMED]
   \<and> list_all (\<lambda>blk. list_all (\<lambda>t. tx_driver_response t \<noteq> REJECTED) (data_txs (data blk)))
       (chain (bc (run toy_app demo_session demo_clicks)))"
proof -
  have i: "session_init toy_app None ''t0'' = Inr demo_session"
    by (rule session_init_toy)
  from no_rejected_on_chain [OF i refl, of demo_clicks]
  have "list_all (\<lambda>blk. list_all (\<lambda>t. tx_driver_response t \<noteq> REJECTED) (data_txs (data blk)))
       (chain (bc (run toy_app demo_session demo_clicks)))"
    by (simp add: list_all_iff)
  with i demo_run show ?thesis by simp
qed

end
